theory Spec2Isabelle
  imports Main "HOL-Library.Word"
begin

unbundle bit_operations_syntax

section \<open>Checkpoint/restore support of os_linux.cpp\<close>

text \<open>
  A shallow embedding of the CRaC part of \<^verbatim>\<open>src/hotspot/os/linux/os_linux.cpp\<close>:
  the descriptor table \<^verbatim>\<open>FdsInfo\<close>, the registry of persistent descriptors, the
  restore parameter block \<^verbatim>\<open>CracRestoreParameters\<close>, the call of the external
  engine and the VM operation \<^verbatim>\<open>VM_Crac::doit\<close>.
\<close>

subsection \<open>Machine types\<close>

type_synonym jlong = "64 word"
type_synonym jint = "32 word"
type_synonym byte = "8 word"
type_synonym cstring = "byte list"

subsection \<open>Restore time and counter\<close>

text \<open>
  \<^verbatim>\<open>static jlong _restore_start_time; static jlong _restore_start_counter;\<close>
  Statics without initialiser start at zero.
\<close>

record restore_clock =
  restore_start_time_var :: jlong
  restore_start_counter_var :: jlong

definition initial_restore_clock :: restore_clock where
  "initial_restore_clock = \<lparr>restore_start_time_var = 0, restore_start_counter_var = 0\<rparr>"

definition restore_start_time :: "restore_clock \<Rightarrow> jlong" where
  "restore_start_time g =
     (if restore_start_time_var g = 0 then - 1 else restore_start_time_var g)"

text \<open>The second argument is the value \<^verbatim>\<open>javaTimeNanos()\<close> returns at the call.\<close>

definition uptime_since_restore :: "restore_clock \<Rightarrow> jlong \<Rightarrow> jlong" where
  "uptime_since_restore g javaTimeNanos =
     (if restore_start_counter_var g = 0 then - 1
      else javaTimeNanos - restore_start_counter_var g)"

subsection \<open>Registry of persistent descriptors\<close>

text \<open>
  \<^verbatim>\<open>struct PersistentResourceDesc { int _fd; dev_t _st_dev; ino_t _st_ino; }\<close>.
  Descriptor numbers are indices of the descriptor table and are modelled as naturals;
  \<^verbatim>\<open>dev_t\<close> and \<^verbatim>\<open>ino_t\<close> are 64-bit unsigned, and the constructor casts its
  \<^verbatim>\<open>int\<close> arguments to them (sign extension).
\<close>

record PersistentResourceDesc =
  pr_fd :: nat
  pr_st_dev :: "64 word"
  pr_st_ino :: "64 word"

definition mk_PersistentResourceDesc :: "nat \<Rightarrow> jint \<Rightarrow> jint \<Rightarrow> PersistentResourceDesc" where
  "mk_PersistentResourceDesc fd st_dev st_ino =
     \<lparr>pr_fd = fd, pr_st_dev = scast st_dev, pr_st_ino = scast st_ino\<rparr>"

text \<open>
  The registry is \<^verbatim>\<open>GrowableArray<PersistentResourceDesc>* _persistent_resources\<close>,
  \<^verbatim>\<open>NULL\<close> until the first registration: \<open>None\<close> is the null pointer.
\<close>

type_synonym registry = "PersistentResourceDesc list option"

text \<open>The search loop of \<^verbatim>\<open>register_persistent_fd\<close>: the result is \<open>(dup, i)\<close>.\<close>

function register_search :: "PersistentResourceDesc list \<Rightarrow> nat \<Rightarrow> nat \<Rightarrow> int \<times> nat" where
  "register_search prs fd i =
     (if i < length prs then
        (let pfd = pr_fd (prs ! i) in
         if pfd = fd then (int i, i)
         else if fd < pfd then (- 1, i)
         else register_search prs fd (i + 1))
      else (- 1, i))"
  by pat_completeness auto
termination
  by (relation "measure (\<lambda>(prs, fd, i). length prs - i)") auto

definition insert_before :: "nat \<Rightarrow> 'a \<Rightarrow> 'a list \<Rightarrow> 'a list" where
  "insert_before i x xs = take i xs @ x # drop i xs"

definition remove_at :: "nat \<Rightarrow> 'a list \<Rightarrow> 'a list" where
  "remove_at i xs = take i xs @ drop (Suc i) xs"

text \<open>The first argument is whether the flag \<^verbatim>\<open>CRaCCheckpointTo\<close> is set.\<close>

definition register_persistent_fd :: "bool \<Rightarrow> registry \<Rightarrow> nat \<Rightarrow> jint \<Rightarrow> jint \<Rightarrow> registry" where
  "register_persistent_fd CRaCCheckpointTo_set reg fd st_dev st_ino =
     (if \<not> CRaCCheckpointTo_set then reg
      else
        (let prs = (case reg of None \<Rightarrow> [] | Some l \<Rightarrow> l);
             (dup, i) = register_search prs fd 0
         in if 0 \<le> dup
            then Some (prs[nat dup := mk_PersistentResourceDesc fd st_dev st_ino])
            else Some (insert_before i (mk_PersistentResourceDesc fd st_dev st_ino) prs)))"

text \<open>
  The search loop of \<^verbatim>\<open>deregister_persistent_fd\<close>:
  \<^verbatim>\<open>
  int i = 0;
  while (i < _persistent_resources->length()) {
    PersistentResourceDesc* pr = _persistent_resources->adr_at(i);
    if (pr->_fd == fd && pr->_st_dev == (dev_t)st_dev && pr->_st_ino == (ino_t)st_ino) {
      break;
    }
  }
  \<close>
  The body does not change \<open>i\<close>. The loop may not return, so its result is an option:
  \<open>None\<close> is the loop that runs forever.
\<close>

definition pr_matches :: "PersistentResourceDesc \<Rightarrow> nat \<Rightarrow> jint \<Rightarrow> jint \<Rightarrow> bool" where
  "pr_matches pr fd st_dev st_ino \<longleftrightarrow>
     pr_fd pr = fd \<and> pr_st_dev pr = scast st_dev \<and> pr_st_ino pr = scast st_ino"

partial_function (option) deregister_search ::
  "PersistentResourceDesc list \<Rightarrow> nat \<Rightarrow> jint \<Rightarrow> jint \<Rightarrow> nat \<Rightarrow> nat option" where
  "deregister_search prs fd st_dev st_ino i =
     (if i < length prs then
        (if pr_matches (prs ! i) fd st_dev st_ino then Some i
         else deregister_search prs fd st_dev st_ino i)
      else Some i)"

definition deregister_persistent_fd ::
  "bool \<Rightarrow> registry \<Rightarrow> nat \<Rightarrow> jint \<Rightarrow> jint \<Rightarrow> registry option" where
  "deregister_persistent_fd CRaCCheckpointTo_set reg fd st_dev st_ino =
     (if \<not> CRaCCheckpointTo_set then Some reg
      else case reg of
        None \<Rightarrow> Some None
      | Some prs \<Rightarrow>
          (case deregister_search prs fd st_dev st_ino 0 of
             None \<Rightarrow> None
           | Some i \<Rightarrow> if i < length prs then Some (Some (remove_at i prs)) else Some (Some prs)))"

subsection \<open>File status and file types\<close>

text \<open>The fields of \<^verbatim>\<open>struct stat\<close> that the code reads.\<close>

record stat =
  st_dev :: "64 word"
  st_ino :: "64 word"
  st_nlink :: "64 word"
  st_mode :: "32 word"
  st_rdev :: "64 word"

definition same_stat :: "stat \<Rightarrow> stat \<Rightarrow> bool" where
  "same_stat st1 st2 \<longleftrightarrow> st_dev st1 = st_dev st2 \<and> st_ino st1 = st_ino st2"

text \<open>
  The file type constants of \<^verbatim>\<open><sys/stat.h>\<close> and the device number macros of
  \<^verbatim>\<open><sys/sysmacros.h>\<close> are not part of the file; these are the values of Linux and
  glibc.
\<close>

definition S_IFMT :: "32 word" where "S_IFMT = 0xF000"
definition S_IFSOCK :: "32 word" where "S_IFSOCK = 0xC000"
definition S_IFLNK :: "32 word" where "S_IFLNK = 0xA000"
definition S_IFREG :: "32 word" where "S_IFREG = 0x8000"
definition S_IFBLK :: "32 word" where "S_IFBLK = 0x6000"
definition S_IFDIR :: "32 word" where "S_IFDIR = 0x4000"
definition S_IFCHR :: "32 word" where "S_IFCHR = 0x2000"
definition S_IFIFO :: "32 word" where "S_IFIFO = 0x1000"

definition S_ISCHR :: "32 word \<Rightarrow> bool" where
  "S_ISCHR m \<longleftrightarrow> m AND S_IFMT = S_IFCHR"

definition S_ISSOCK :: "32 word \<Rightarrow> bool" where
  "S_ISSOCK m \<longleftrightarrow> m AND S_IFMT = S_IFSOCK"

definition major :: "64 word \<Rightarrow> 32 word" where
  "major dev = ucast ((drop_bit 32 dev AND 0xfffff000) OR (drop_bit 8 dev AND 0x00000fff))"

definition minor :: "64 word \<Rightarrow> 32 word" where
  "minor dev = ucast ((drop_bit 12 dev AND 0xffffff00) OR (dev AND 0x000000ff))"

subsection \<open>The operating system's descriptors\<close>

text \<open>
  A descriptor refers to an open file description; \<^verbatim>\<open>dup\<close> makes two descriptors
  refer to one description, a second \<^verbatim>\<open>open\<close> of the same file makes a new one.
  The status flags belong to the description. \<open>of_setfl\<close> is whether
  \<^verbatim>\<open>fcntl(F_SETFL)\<close> takes effect on the description. \<open>stray_arg\<close> is the value
  \<^verbatim>\<open>fcntl\<close> finds as its third argument when the caller passes only two.
\<close>

record open_file =
  of_stat :: stat
  of_flags :: nat
  of_setfl :: bool

record os_state =
  fd_table :: "nat \<Rightarrow> nat option"
  open_files :: "nat \<Rightarrow> open_file"
  fd_links :: "nat \<Rightarrow> string option"
  open_max :: nat
  stray_arg :: int

definition F_GETFL :: int where "F_GETFL = 3"
definition F_SETFL :: int where "F_SETFL = 4"
definition O_NONBLOCK :: int where "O_NONBLOCK = 2 ^ 11"

text \<open>
  On Linux \<^verbatim>\<open>F_SETFL\<close> changes only \<^verbatim>\<open>O_APPEND\<close>, \<^verbatim>\<open>O_NONBLOCK\<close>,
  \<^verbatim>\<open>O_ASYNC\<close>, \<^verbatim>\<open>O_DIRECT\<close> and \<^verbatim>\<open>O_NOATIME\<close>.
\<close>

definition SETFL_MASK :: int where
  "SETFL_MASK = 2 ^ 10 OR 2 ^ 11 OR 2 ^ 13 OR 2 ^ 14 OR 2 ^ 18"

definition fstat :: "os_state \<Rightarrow> nat \<Rightarrow> stat option" where
  "fstat os fd = map_option (\<lambda>d. of_stat (open_files os d)) (fd_table os fd)"

text \<open>
  \<^verbatim>\<open>fcntl(fd, cmd, arg)\<close> for the two commands the code means to use. The model keeps
  the status flags of a description and nothing else of it, so every other command
  leaves the state as it is. The third argument is \<open>None\<close> when the caller passes
  two arguments.
\<close>

definition fcntl :: "os_state \<Rightarrow> nat \<Rightarrow> int \<Rightarrow> int option \<Rightarrow> int \<times> os_state" where
  "fcntl os fd cmd arg =
     (case fd_table os fd of
        None \<Rightarrow> (- 1, os)
      | Some d \<Rightarrow>
          (let f = open_files os d in
           if cmd = F_GETFL then (int (of_flags f), os)
           else if cmd = F_SETFL then
             (if of_setfl f then
                (let a = (case arg of Some a \<Rightarrow> a | None \<Rightarrow> stray_arg os);
                     flags' = nat ((int (of_flags f) AND NOT SETFL_MASK) OR (a AND SETFL_MASK))
                 in (0, os\<lparr>open_files := (open_files os)(d := f\<lparr>of_flags := flags'\<rparr>)\<rparr>))
              else (- 1, os))
           else (- 1, os)))"

text \<open>
  \<^verbatim>\<open>readfdlink\<close>: \<^verbatim>\<open>readlink\<close> of \<^verbatim>\<open>/proc/self/fd/N\<close> into a buffer of
  \<open>len\<close> bytes. \<open>None\<close> is the return value \<open>-1\<close>; otherwise the return value and the
  terminated contents of the buffer.
\<close>

definition readfdlink :: "os_state \<Rightarrow> nat \<Rightarrow> nat \<Rightarrow> (nat \<times> string) option" where
  "readfdlink os fd len =
     (case fd_links os fd of
        None \<Rightarrow> None
      | Some target \<Rightarrow>
          (let ret = min (length target) len
           in Some (ret, take (if ret < len then ret else len - 1) target)))"

subsection \<open>Paths that cannot be restored\<close>

fun starts_with :: "string \<Rightarrow> string \<Rightarrow> bool" where
  "starts_with s [] = True"
| "starts_with [] (p # ps) = False"
| "starts_with (c # cs) (p # ps) = (c = p \<and> starts_with cs ps)"

text \<open>\<^verbatim>\<open>strstr(haystack, needle) != NULL\<close>.\<close>

fun strstr :: "string \<Rightarrow> string \<Rightarrow> bool" where
  "strstr [] needle = (needle = [])"
| "strstr (c # cs) needle = (starts_with (c # cs) needle \<or> strstr cs needle)"

text \<open>\<^verbatim>\<open>sep = strrchr(path, '/'); base = sep ? sep + 1 : path\<close>.\<close>

definition base_name :: "string \<Rightarrow> string" where
  "base_name path = rev (takeWhile (\<lambda>c. c \<noteq> CHR ''/'') (rev path))"

definition isxdigit :: "char \<Rightarrow> bool" where
  "isxdigit c \<longleftrightarrow> c \<in> set ''0123456789abcdefABCDEF''"

definition NFS_PREF :: string where "NFS_PREF = ''.nfs''"
definition NFS_PREF_LEN :: nat where "NFS_PREF_LEN = 4"
definition NFS_FILEID_LEN :: nat where "NFS_FILEID_LEN = 16"
definition NFS_COUNTER_LEN :: nat where "NFS_COUNTER_LEN = 8"
definition NFS_LEN :: nat where "NFS_LEN = NFS_PREF_LEN + NFS_FILEID_LEN + NFS_COUNTER_LEN"

text \<open>
  The loop reads \<open>base[i]\<close> for \<open>i\<close> from \<open>NFS_PREF_LEN\<close> up to \<open>NFS_LEN\<close> and stops
  at the first byte that is no hexadecimal digit; the terminating NUL is none.
\<close>

definition nfs_silly_rename :: "string \<Rightarrow> bool" where
  "nfs_silly_rename path =
     (let base = base_name path in
      if \<not> starts_with base NFS_PREF then False
      else list_all (\<lambda>i. i < length base \<and> isxdigit (base ! i)) [NFS_PREF_LEN..<NFS_LEN])"

subsection \<open>FdsInfo\<close>

text \<open>
  \<^verbatim>\<open>enum state_t { INVALID = -3, CLOSED = -2, ROOT = -1, DUP_OF_0 = 0 }\<close>: the state of
  a duplicate of descriptor \<open>j\<close> is the integer \<open>DUP_OF_0 + j\<close>.
\<close>

definition INVALID :: int where "INVALID = - 3"
definition CLOSED :: int where "CLOSED = - 2"
definition ROOT :: int where "ROOT = - 1"
definition DUP_OF_0 :: int where "DUP_OF_0 = 0"

definition M_ZIP_CACHE :: "32 word" where "M_ZIP_CACHE = push_bit 0 1"
definition M_CANT_RESTORE :: "32 word" where "M_CANT_RESTORE = push_bit 1 1"
definition M_CLASSPATH :: "32 word" where "M_CLASSPATH = push_bit 2 1"
definition M_PERSISTENT :: "32 word" where "M_PERSISTENT = push_bit 3 1"

text \<open>\<^verbatim>\<open>struct fdinfo\<close>; its field \<^verbatim>\<open>flags\<close> is never read or written.\<close>

record fdinfo =
  fi_stat :: stat
  fi_state :: int
  fi_mark :: "32 word"

text \<open>
  The table \<^verbatim>\<open>_fdinfos\<close> with \<^verbatim>\<open>_len\<close> entries is a list; all indices the code
  passes to these accessors are below \<^verbatim>\<open>_len\<close>.
\<close>

definition get_state :: "fdinfo list \<Rightarrow> nat \<Rightarrow> int" where
  "get_state infos i = fi_state (infos ! i)"

definition set_state :: "fdinfo list \<Rightarrow> nat \<Rightarrow> int \<Rightarrow> fdinfo list" where
  "set_state infos i newst = infos[i := (infos ! i)\<lparr>fi_state := newst\<rparr>]"

definition get_stat :: "fdinfo list \<Rightarrow> nat \<Rightarrow> stat" where
  "get_stat infos i = fi_stat (infos ! i)"

definition mark :: "fdinfo list \<Rightarrow> nat \<Rightarrow> 32 word \<Rightarrow> fdinfo list" where
  "mark infos i m = infos[i := (infos ! i)\<lparr>fi_mark := fi_mark (infos ! i) OR m\<rparr>]"

definition check :: "fdinfo list \<Rightarrow> nat \<Rightarrow> 32 word \<Rightarrow> bool" where
  "check infos i m \<longleftrightarrow> 0 \<noteq> fi_mark (infos ! i) AND m"

text \<open>\<^verbatim>\<open>FdsInfo::same_fd\<close>, with the state of the operating system passed through.\<close>

definition same_fd :: "os_state \<Rightarrow> fdinfo list \<Rightarrow> nat \<Rightarrow> nat \<Rightarrow> bool \<times> os_state" where
  "same_fd os infos fd1 fd2 =
     (if \<not> same_stat (get_stat infos fd1) (get_stat infos fd2) then (False, os)
      else
        (let flags1 = fst (fcntl os fd1 F_GETFL None);
             flags2 = fst (fcntl os fd2 F_GETFL None)
         in if flags1 \<noteq> flags2 then (False, os)
            else
              (let test_flag = O_NONBLOCK;
                   new_flags1 = flags1 XOR test_flag;
                   os1 = snd (fcntl os fd1 F_SETFL (Some new_flags1))
               in if fst (fcntl os1 fd1 F_GETFL None) \<noteq> new_flags1 then (False, os1)
                  else
                    (let new_flags2 = fst (fcntl os1 fd2 F_GETFL None);
                         are_same = (new_flags1 = new_flags2);
                         os2 = snd (fcntl os1 fd1 flags1 None)
                     in (are_same, os2)))))"

text \<open>
  \<^verbatim>\<open>FdsInfo::initialize\<close>. The array from \<^verbatim>\<open>NEW_C_HEAP_ARRAY\<close> is not
  initialised: its contents \<open>heap\<close> are a parameter, one entry for each index. The
  first loop leaves \<^verbatim>\<open>stat\<close> and \<^verbatim>\<open>mark\<close> of a closed slot as they were.
\<close>

fun fstat_loop :: "os_state \<Rightarrow> nat list \<Rightarrow> fdinfo list \<times> int \<Rightarrow> fdinfo list \<times> int" where
  "fstat_loop os [] acc = acc"
| "fstat_loop os (i # is) (infos, last_fd) =
     (case fstat os i of
        None \<Rightarrow> fstat_loop os is (infos[i := (infos ! i)\<lparr>fi_state := CLOSED\<rparr>], last_fd)
      | Some st \<Rightarrow>
          fstat_loop os is
            (infos[i := (infos ! i)\<lparr>fi_stat := st, fi_state := ROOT, fi_mark := 0\<rparr>], int i))"

text \<open>The inner loop over \<open>j < i\<close>, left by \<^verbatim>\<open>break\<close> at the first duplicate.\<close>

fun alias_loop :: "os_state \<Rightarrow> fdinfo list \<Rightarrow> nat \<Rightarrow> nat list \<Rightarrow> fdinfo list \<times> os_state" where
  "alias_loop os infos i [] = (infos, os)"
| "alias_loop os infos i (j # js) =
     (if get_state infos j = ROOT then
        (case same_fd os infos i j of
           (True, os') \<Rightarrow> (set_state infos i (DUP_OF_0 + int j), os')
         | (False, os') \<Rightarrow> alias_loop os' infos i js)
      else alias_loop os infos i js)"

text \<open>
  The ways in which a function of the file does not return a result: a failed
  \<^verbatim>\<open>guarantee\<close> ends the VM, as does a failed allocation; a read beyond a buffer
  has no defined result; a call that blocks for ever never returns.
\<close>

datatype crac_error = Guarantee_failed | Out_of_bounds | Out_of_memory | Never_returns

definition PATH_MAX :: nat where "PATH_MAX = 4096"

definition mark_cant_restore :: "os_state \<Rightarrow> fdinfo list \<Rightarrow> nat \<Rightarrow> crac_error + fdinfo list" where
  "mark_cant_restore os infos i =
     (if get_state infos i = ROOT then
        (case readfdlink os i PATH_MAX of
           None \<Rightarrow> Inl Guarantee_failed
         | Some (r, fdpath) \<Rightarrow>
             if st_nlink (get_stat infos i) = 0 \<or> strstr fdpath ''(deleted)''
                \<or> nfs_silly_rename fdpath
             then Inr (mark infos i M_CANT_RESTORE)
             else Inr infos)
      else Inr infos)"

fun classify_loop ::
  "os_state \<Rightarrow> fdinfo list \<Rightarrow> nat list \<Rightarrow> crac_error + (fdinfo list \<times> os_state)" where
  "classify_loop os infos [] = Inr (infos, os)"
| "classify_loop os infos (i # is) =
     (case alias_loop os infos i [0..<i] of
        (infos1, os1) \<Rightarrow>
          (case mark_cant_restore os1 infos1 i of
             Inl e \<Rightarrow> Inl e
           | Inr infos2 \<Rightarrow> classify_loop os1 infos2 is))"

definition initialize ::
  "os_state \<Rightarrow> (nat \<Rightarrow> fdinfo) \<Rightarrow> crac_error + (fdinfo list \<times> os_state)" where
  "initialize os heap =
     (let max_fd = open_max os;
          (infos0, last_fd) = fstat_loop os [0..<max_fd] (map heap [0..<max_fd], - 1);
          len = nat (last_fd + 1);
          infos = take len infos0
      in classify_loop os infos [0..<len])"

subsection \<open>CracRestoreParameters\<close>


text \<open>
  \<^verbatim>\<open>struct header { jlong _restore_time; jlong _restore_counter; int _nprops;
  int _env_memory_size; }\<close>: 24 bytes without padding. The struct is written and read
  as it lies in memory, little-endian on the Linux targets of the file.
\<close>

record header =
  h_restore_time :: jlong
  h_restore_counter :: jlong
  h_nprops :: jint
  h_env_memory_size :: jint

definition sizeof_header :: nat where "sizeof_header = 24"


definition le_word :: "byte list \<Rightarrow> 'a::len word" where
  "le_word bs = foldr (\<lambda>b acc. ucast b OR push_bit 8 acc) bs 0"


definition parse_header :: "byte list \<Rightarrow> header" where
  "parse_header bs =
     \<lparr>h_restore_time = le_word (take 8 bs),
      h_restore_counter = le_word (take 8 (drop 8 bs)),
      h_nprops = le_word (take 4 (drop 16 bs)),
      h_env_memory_size = le_word (take 4 (drop 20 bs))\<rparr>"











text \<open>
  The reading side. \<open>so_size\<close> is \<^verbatim>\<open>st_size\<close> when \<^verbatim>\<open>fstat\<close> succeeds, \<open>so_read\<close> the
  bytes that \<^verbatim>\<open>read\<close> delivers when it succeeds. The buffer holds what was read;
  a read beyond it is the error \<open>Out_of_bounds\<close>.
\<close>

record shm_object =
  so_size :: "nat option"
  so_read :: "byte list option"

text \<open>\<^verbatim>\<open>strlen\<close> inside a buffer: \<open>None\<close> when no NUL follows.\<close>

definition strlen :: "byte list \<Rightarrow> nat option" where
  "strlen mem = (if 0 \<in> set mem then Some (length (takeWhile (\<lambda>b. b \<noteq> 0) mem)) else None)"

text \<open>
  \<^verbatim>\<open>putenv\<close> of glibc: a string \<open>NAME=value\<close> replaces the entry of that name or
  is added at the end; a string without \<open>=\<close> removes the entries of that name.
\<close>

definition env_name :: "cstring \<Rightarrow> cstring" where
  "env_name s = takeWhile (\<lambda>b. b \<noteq> 0x3D) s"

definition has_name :: "cstring \<Rightarrow> cstring \<Rightarrow> bool" where
  "has_name n e \<longleftrightarrow> 0x3D \<in> set e \<and> env_name e = n"

definition putenv :: "cstring list \<Rightarrow> cstring \<Rightarrow> cstring list" where
  "putenv env s =
     (if 0x3D \<in> set s then
        (if list_ex (has_name (env_name s)) env
         then map (\<lambda>e. if has_name (env_name s) e then s else e) env
         else env @ [s])
      else filter (\<lambda>e. \<not> has_name s e) env)"

text \<open>The loop over the properties, \<open>n\<close> iterations left.\<close>

fun read_props ::
  "byte list \<Rightarrow> nat \<Rightarrow> nat \<Rightarrow> cstring list \<Rightarrow> crac_error + (cstring list \<times> nat)" where
  "read_props contents cursor 0 properties = Inr (properties, cursor)"
| "read_props contents cursor (Suc n) properties =
     (case strlen (drop cursor contents) of
        None \<Rightarrow> Inl Out_of_bounds
      | Some l \<Rightarrow>
          read_props contents (cursor + (l + 1)) n
            (properties @ [take l (drop cursor contents)]))"

text \<open>\<^verbatim>\<open>while (env_mem < env_end) { ... putenv(env_mem); env_mem += s; }\<close>\<close>

function read_env :: "byte list \<Rightarrow> cstring list \<Rightarrow> crac_error + cstring list" where
  "read_env env_mem env =
     (if env_mem = [] then Inr env
      else
        (case strlen env_mem of
           None \<Rightarrow> Inl Out_of_bounds
         | Some l \<Rightarrow> read_env (drop (l + 1) env_mem) (putenv env (take l env_mem))))"
  by pat_completeness auto
termination
  by (relation "measure (\<lambda>(env_mem, env). length env_mem)") auto

declare read_env.simps [simp del]

record CracRestoreParameters =
  rp_properties :: "cstring list"
  rp_args :: "cstring option"

definition new_CracRestoreParameters :: CracRestoreParameters where
  "new_CracRestoreParameters = \<lparr>rp_properties = [], rp_args = None\<rparr>"

text \<open>The process state that \<^verbatim>\<open>read_from\<close> changes besides its object.\<close>

record restore_state =
  rs_params :: CracRestoreParameters
  rs_clock :: restore_clock
  rs_environ :: "cstring list"

text \<open>
  \<^verbatim>\<open>CracRestoreParameters::read_from\<close>. \<^verbatim>\<open>_args\<close> points into the buffer; the
  string at this place is read when \<^verbatim>\<open>args()\<close> is used, and is taken here.
\<close>

definition read_from :: "shm_object \<Rightarrow> restore_state \<Rightarrow> crac_error + (bool \<times> restore_state)" where
  "read_from fd st =
     (case so_size fd of
        None \<Rightarrow> Inr (False, st)
      | Some st_size \<Rightarrow>
          (case so_read fd of
             None \<Rightarrow> Inr (False, st)
           | Some bytes \<Rightarrow>
               (let contents = take st_size bytes in
                if length contents < sizeof_header then Inl Out_of_bounds
                else
                  (let hdr = parse_header contents;
                       cursor = sizeof_header;
                       clock = \<lparr>restore_start_time_var = h_restore_time hdr,
                                restore_start_counter_var = h_restore_counter hdr\<rparr>
                   in case read_props contents cursor (nat (sint (h_nprops hdr)))
                             (rp_properties (rs_params st)) of
                        Inl e \<Rightarrow> Inl e
                      | Inr (properties, cursor1) \<Rightarrow>
                          if sint (h_env_memory_size hdr) < 0 then Inl Out_of_memory
                          else
                            (let size = nat (sint (h_env_memory_size hdr)) in
                             if length contents < cursor1 + size then Inl Out_of_bounds
                             else
                               (case read_env (take size (drop cursor1 contents)) (rs_environ st) of
                                  Inl e \<Rightarrow> Inl e
                                | Inr env \<Rightarrow>
                                    (case strlen (drop (cursor1 + size) contents) of
                                       None \<Rightarrow> Inl Out_of_bounds
                                     | Some l \<Rightarrow>
                                         Inr (True,
                                           \<lparr>rs_params =
                                              \<lparr>rp_properties = properties,
                                               rp_args = Some (take l (drop (cursor1 + size) contents))\<rparr>,
                                            rs_clock = clock, rs_environ = env\<rparr>))))))))"










subsection \<open>The external engine and the restore signal\<close>


datatype jvm_cr_fail = JVM_CR_FAIL | JVM_CR_FAIL_FILE | JVM_CR_FAIL_SOCK | JVM_CR_FAIL_PIPE

text \<open>
  What the code does to the world outside its own variables, in the order it happens.
\<close>

datatype event =
    Ev_heap_dump
  | Ev_perf_checkpoint
  | Ev_perf_restore
  | Ev_report_ok_to_jcmd
  | Ev_fork
  | Ev_waitpid
  | Ev_sigwaitinfo
  | Ev_invalid_restore_info
  | Ev_shm_open int
  | Ev_shm_unlink int

text \<open>
  One return of \<^verbatim>\<open>waitpid\<close>: interrupted, failed, or with a status that says the
  child exited with a code or did not exit. One return of \<^verbatim>\<open>sigwaitinfo\<close>:
  interrupted, or returned with these contents of \<^verbatim>\<open>siginfo_t\<close>.
\<close>

datatype wait_result = Wait_EINTR | Wait_failed | Wait_exited nat | Wait_not_exited

record siginfo =
  si_code :: int
  si_int :: int

datatype sig_result = Sig_EINTR | Sig_returned siginfo

definition SI_QUEUE :: int where "SI_QUEUE = - 1"



text \<open>
  Everything \<^verbatim>\<open>VM_Crac::doit\<close> takes from outside: the flags of the VM, the class
  paths, the answers of the file system, of the engine process, of the signal and of
  the clocks, the shared memory objects by their id, the baseline table
  \<^verbatim>\<open>_vm_inited_fds\<close> (\<open>None\<close> when it was never initialised) and the contents of
  fresh heap memory. \<open>mkdir_ok\<close> is whether \<^verbatim>\<open>mkdir\<close> of the checkpoint directory
  succeeds or finds it there. The two clock fields are the values that
  \<^verbatim>\<open>javaTimeMillis()\<close> and \<^verbatim>\<open>javaTimeNanos()\<close> return when \<^verbatim>\<open>doit\<close>
  reads them.
\<close>

record crac_env =
  CRaCCheckpointTo :: "string option"
  CRPrintResourcesOnCheckpoint :: bool
  CRHeapDumpOnCheckpointException :: bool
  CRDoThrowCheckpointException :: bool
  CRAllowToSkipCheckpoint :: bool
  sysclasspath :: string
  appclasspath :: string
  ext_dirs :: string
  path_stat :: "string \<Rightarrow> stat option"
  dir_inodes :: "string \<Rightarrow> 64 word list option"
  proc_net_details :: "string \<Rightarrow> string"
  vm_inited_fds :: "fdinfo list option"
  heap_contents :: "nat \<Rightarrow> fdinfo"
  perf_checkpoint_ok :: bool
  crengine :: "string option"
  fork_ok :: bool
  waitpid_results :: "wait_result list"
  sigwaitinfo_results :: "sig_result list"
  javaTimeMillis :: jlong
  javaTimeNanos :: jlong
  shm_objects :: "int \<Rightarrow> shm_object option"
  mkdir_ok :: bool



subsection \<open>The resource policy\<close>

definition stat2strtype :: "32 word \<Rightarrow> string" where
  "stat2strtype mode =
     (let t = mode AND S_IFMT in
      if t = S_IFSOCK then ''socket''
      else if t = S_IFLNK then ''symlink''
      else if t = S_IFREG then ''regular''
      else if t = S_IFBLK then ''block''
      else if t = S_IFDIR then ''directory''
      else if t = S_IFCHR then ''character''
      else if t = S_IFIFO then ''fifo''
      else ''unknown'')"

definition stat2stfail :: "32 word \<Rightarrow> jvm_cr_fail" where
  "stat2stfail mode =
     (let t = mode AND S_IFMT in
      if t = S_IFSOCK then JVM_CR_FAIL_SOCK
      else if t = S_IFLNK \<or> t = S_IFREG \<or> t = S_IFBLK \<or> t = S_IFDIR \<or> t = S_IFCHR
        then JVM_CR_FAIL_FILE
      else if t = S_IFIFO then JVM_CR_FAIL_PIPE
      else JVM_CR_FAIL)"

record CracFailDep =
  fail_type :: jvm_cr_fail
  fail_msg :: string

text \<open>
  What \<^verbatim>\<open>print_resources\<close> writes for a descriptor: the line that names it, then
  the reason of the decision.
\<close>

datatype resource_line =
    Line_fd nat string string
  | Line_ok_inherited
  | Line_ok_random
  | Line_ok_classpath
  | Line_ok_persistent
  | Line_ok_jcmd
  | Line_details2 string
  | Line_bad

text \<open>
  The object of class \<^verbatim>\<open>VM_Crac\<close>. \<open>vc_attach_op\<close> is the socket of the attach
  operation, \<open>None\<close> for the null pointer.
\<close>

record VM_Crac =
  vc_dry_run :: bool
  vc_ok :: bool
  vc_failures :: "CracFailDep list"
  vc_restore_parameters :: CracRestoreParameters
  vc_ostream :: "resource_line list"
  vc_attach_op :: "nat option"

definition new_VM_Crac :: "bool \<Rightarrow> nat option \<Rightarrow> VM_Crac" where
  "new_VM_Crac dry_run attach_op =
     \<lparr>vc_dry_run = dry_run, vc_ok = False, vc_failures = [],
      vc_restore_parameters = new_CracRestoreParameters, vc_ostream = [],
      vc_attach_op = attach_op\<rparr>"

definition print_resources :: "crac_env \<Rightarrow> VM_Crac \<Rightarrow> resource_line \<Rightarrow> VM_Crac" where
  "print_resources env vm line =
     (if CRPrintResourcesOnCheckpoint env then vm\<lparr>vc_ostream := vc_ostream vm @ [line]\<rparr> else vm)"

definition is_socket_from_jcmd :: "VM_Crac \<Rightarrow> nat \<Rightarrow> bool" where
  "is_socket_from_jcmd vm sock =
     (case vc_attach_op vm of None \<Rightarrow> False | Some sock_fd \<Rightarrow> sock = sock_fd)"

text \<open>\<^verbatim>\<open>get_state(i, orstate)\<close> on a table that may not be initialised (\<^verbatim>\<open>_len = -1\<close>).\<close>

definition get_state_or :: "fdinfo list option \<Rightarrow> nat \<Rightarrow> int \<Rightarrow> int" where
  "get_state_or fds i orstate =
     (case fds of
        None \<Rightarrow> orstate
      | Some infos \<Rightarrow> if i < length infos then fi_state (infos ! i) else orstate)"

definition mark_classpath_entry :: "crac_env \<Rightarrow> fdinfo list \<Rightarrow> string \<Rightarrow> fdinfo list" where
  "mark_classpath_entry env fds cp =
     (case path_stat env cp of
        None \<Rightarrow> fds
      | Some st \<Rightarrow>
          fold (\<lambda>i fds. if same_stat st (get_stat fds i) then mark fds i M_CLASSPATH else fds)
            [0..<length fds] fds)"

definition mark_all_in :: "crac_env \<Rightarrow> fdinfo list \<Rightarrow> string \<Rightarrow> fdinfo list" where
  "mark_all_in env fds dirpath =
     (case dir_inodes env dirpath of
        None \<Rightarrow> fds
      | Some dents \<Rightarrow>
          fold (\<lambda>d_ino fds.
                 fold (\<lambda>i fds.
                        if get_state fds i \<noteq> ROOT then fds
                        else if d_ino = st_ino (get_stat fds i) then mark fds i M_CLASSPATH
                        else fds)
                   [0..<length fds] fds)
            dents fds)"

text \<open>
  \<^verbatim>\<open>do_classpaths\<close>: \<open>fn\<close> for every entry that a colon ends, and
  \<^verbatim>\<open>mark_classpath_entry\<close> for the rest of the string.
\<close>

function do_classpaths ::
  "crac_env \<Rightarrow> (fdinfo list \<Rightarrow> string \<Rightarrow> fdinfo list) \<Rightarrow> fdinfo list \<Rightarrow> string \<Rightarrow> fdinfo list" where
  "do_classpaths env fn fds cp =
     (if CHR '':'' \<in> set cp
      then do_classpaths env fn (fn fds (takeWhile (\<lambda>c. c \<noteq> CHR '':'') cp))
             (tl (dropWhile (\<lambda>c. c \<noteq> CHR '':'') cp))
      else mark_classpath_entry env fds cp)"
  by pat_completeness auto
termination
proof (relation "measure (\<lambda>(env, fn, fds, cp). length cp)")
  show "wf (measure (\<lambda>(env, fn, fds, cp). length cp))"
    by simp
next
  fix env :: crac_env and fn :: "fdinfo list \<Rightarrow> string \<Rightarrow> fdinfo list"
    and fds :: "fdinfo list" and cp :: string
  assume c: "CHR '':'' \<in> set cp"
  then have "dropWhile (\<lambda>c. c \<noteq> CHR '':'') cp \<noteq> []"
    by simp
  then have "length (tl (dropWhile (\<lambda>c. c \<noteq> CHR '':'') cp)) <
      length (dropWhile (\<lambda>c. c \<noteq> CHR '':'') cp)"
    by (cases "dropWhile (\<lambda>c. c \<noteq> CHR '':'') cp") simp_all
  also have "\<dots> \<le> length cp"
    by (rule length_dropWhile_le)
  finally show "((env, fn, fn fds (takeWhile (\<lambda>c. c \<noteq> CHR '':'') cp),
           tl (dropWhile (\<lambda>c. c \<noteq> CHR '':'') cp)), (env, fn, fds, cp))
         \<in> measure (\<lambda>(env, fn, fds, cp). length cp)"
    by simp
qed

declare do_classpaths.simps [simp del]

text \<open>The loop of \<^verbatim>\<open>mark_persistent\<close>, left by \<^verbatim>\<open>break\<close> at a descriptor beyond the table.\<close>

fun mark_persistent_loop :: "PersistentResourceDesc list \<Rightarrow> fdinfo list \<Rightarrow> fdinfo list" where
  "mark_persistent_loop [] fds = fds"
| "mark_persistent_loop (pr # prs) fds =
     (let fd = pr_fd pr in
      if length fds \<le> fd then fds
      else if get_state fds fd \<noteq> ROOT then mark_persistent_loop prs fds
      else if st_dev (get_stat fds fd) = pr_st_dev pr \<and> st_ino (get_stat fds fd) = pr_st_ino pr
        then mark_persistent_loop prs (mark fds fd M_PERSISTENT)
      else mark_persistent_loop prs fds)"

definition mark_persistent :: "fdinfo list \<Rightarrow> registry \<Rightarrow> fdinfo list \<times> registry" where
  "mark_persistent fds reg =
     (case reg of
        None \<Rightarrow> (fds, reg)
      | Some prs \<Rightarrow> (mark_persistent_loop prs fds, None))"

text \<open>
  The body of the loop over the table in \<^verbatim>\<open>VM_Crac::doit\<close>, on the local \<open>ok\<close> and
  the object. \<^verbatim>\<open>sock_details\<close> looks the socket up in \<^verbatim>\<open>/proc/net\<close>; its result
  is \<open>proc_net_details\<close> of the link.
\<close>

definition check_fd ::
  "crac_env \<Rightarrow> os_state \<Rightarrow> fdinfo list \<Rightarrow> nat \<Rightarrow> bool \<times> VM_Crac \<Rightarrow> bool \<times> VM_Crac" where
  "check_fd env os fds i acc =
     (case acc of (ok, vm) \<Rightarrow>
      if get_state fds i = CLOSED then (ok, vm)
      else
        (let details = (case readfdlink os i 128 of
                          None \<Rightarrow> []
                        | Some (linkret, detailsbuf) \<Rightarrow> if 0 < linkret then detailsbuf else []);
             vm1 = print_resources env vm
                     (Line_fd i (stat2strtype (st_mode (get_stat fds i))) details)
         in if get_state_or (vm_inited_fds env) i CLOSED \<noteq> CLOSED
            then (ok, print_resources env vm1 Line_ok_inherited)
            else
              (let st = get_stat fds i in
               if S_ISCHR (st_mode st) \<and> major (st_rdev st) = 1 \<and>
                  (minor (st_rdev st) = 8 \<or> minor (st_rdev st) = 9)
               then (ok, print_resources env vm1 Line_ok_random)
               else if check fds i M_CLASSPATH \<and> \<not> check fds i M_CANT_RESTORE
               then (ok, print_resources env vm1 Line_ok_classpath)
               else if check fds i M_PERSISTENT
               then (ok, print_resources env vm1 Line_ok_persistent)
               else if S_ISSOCK (st_mode st) \<and> is_socket_from_jcmd vm1 i
               then (ok, print_resources env vm1 Line_ok_jcmd)
               else
                 (let details2 = (if S_ISSOCK (st_mode st) then proc_net_details env details
                                  else details);
                      vm2 = (if S_ISSOCK (st_mode st)
                             then print_resources env vm1 (Line_details2 details2) else vm1);
                      vm3 = print_resources env vm2 Line_bad
                  in (False,
                      vm3\<lparr>vc_failures := vc_failures vm3 @
                            [\<lparr>fail_type = stat2stfail (st_mode st AND S_IFMT),
                              fail_msg = details2\<rparr>]\<rparr>)))))"

subsection \<open>VM_Crac::doit\<close>

text \<open>The variables of the process that \<^verbatim>\<open>doit\<close> reads and writes, and the events.\<close>

record crac_state =
  cs_vm :: VM_Crac
  cs_os :: os_state
  cs_clock :: restore_clock
  cs_registry :: registry
  cs_environ :: "cstring list"
  cs_events :: "event list"

definition add_events :: "event list \<Rightarrow> crac_state \<Rightarrow> crac_state" where
  "add_events evs s = s\<lparr>cs_events := cs_events s @ evs\<rparr>"


definition PerfMemoryLinux_restore :: "crac_state \<Rightarrow> crac_state" where
  "PerfMemoryLinux_restore s = add_events [Ev_perf_restore] s"

text \<open>\<^verbatim>\<open>VM_Crac::read_shm\<close>.\<close>

definition read_shm :: "crac_env \<Rightarrow> int \<Rightarrow> crac_state \<Rightarrow> crac_error + (bool \<times> crac_state)" where
  "read_shm env shmid s =
     (let s1 = add_events [Ev_shm_open shmid, Ev_shm_unlink shmid] s in
      case shm_objects env shmid of
        None \<Rightarrow> Inr (False, s1)
      | Some shmfd \<Rightarrow>
          (case read_from shmfd
                  \<lparr>rs_params = vc_restore_parameters (cs_vm s1), rs_clock = cs_clock s1,
                   rs_environ = cs_environ s1\<rparr> of
             Inl e \<Rightarrow> Inl e
           | Inr (ret, rs) \<Rightarrow>
               Inr (ret, s1\<lparr>cs_vm := (cs_vm s1)\<lparr>vc_restore_parameters := rs_params rs\<rparr>,
                            cs_clock := rs_clock rs, cs_environ := rs_environ rs\<rparr>)))"

text \<open>
  The first part of \<^verbatim>\<open>doit\<close>, up to the end of the loop over the table: the table,
  the marks, and the local \<open>ok\<close> with the failures.
\<close>

definition evaluate_resources :: "crac_env \<Rightarrow> crac_state \<Rightarrow> crac_error + (bool \<times> crac_state)" where
  "evaluate_resources env s =
     (case initialize (cs_os s) (heap_contents env) of
        Inl e \<Rightarrow> Inl e
      | Inr (fds0, os1) \<Rightarrow>
          (let fds1 = do_classpaths env (mark_classpath_entry env) fds0 (sysclasspath env);
               fds2 = do_classpaths env (mark_classpath_entry env) fds1 (appclasspath env);
               fds3 = do_classpaths env (mark_all_in env) fds2 (ext_dirs env);
               (fds, reg) = mark_persistent fds3 (cs_registry s);
               (ok, vm) = fold (check_fd env os1 fds) [0..<length fds]
                            (\<not> vc_dry_run (cs_vm s), cs_vm s)
           in Inr (ok, s\<lparr>cs_vm := vm, cs_os := os1, cs_registry := reg\<rparr>)))"

text \<open>
  The rest of \<^verbatim>\<open>doit\<close>, from the test of \<open>ok\<close> on. The lines that
  \<^verbatim>\<open>trace_cr\<close> prints have no part in the model.
\<close>

definition finish_restore :: "crac_env \<Rightarrow> int \<Rightarrow> crac_state \<Rightarrow> crac_error + crac_state" where
  "finish_restore env shmid s =
     (case (if shmid \<le> 0 then Inr (False, s) else read_shm env shmid s) of
        Inl e \<Rightarrow> Inl e
      | Inr (read_ok, s1) \<Rightarrow>
          (let s2 = (if shmid \<le> 0 \<or> \<not> read_ok
                     then s1\<lparr>cs_clock := \<lparr>restore_start_time_var = javaTimeMillis env,
                                           restore_start_counter_var = javaTimeNanos env\<rparr>\<rparr>
                     else s1);
               s3 = PerfMemoryLinux_restore s2
           in Inr (s3\<lparr>cs_vm := (cs_vm s3)\<lparr>vc_ok := True\<rparr>\<rparr>)))"






subsection \<open>Duplicates of one open file description\<close>








subsection \<open>Example inputs\<close>

text \<open>
  A regular file opened read-write: \<^verbatim>\<open>F_GETFL\<close> gives
  \<^verbatim>\<open>O_RDWR | O_LARGEFILE\<close>, \<open>0x8002\<close>. In \<open>ex_os\<close> descriptors 0 and 1 are
  duplicates of one open file description. In \<open>cex_os\<close> descriptors 0 and 1 come from
  two calls of \<^verbatim>\<open>open\<close> on the same file with the same flags.
\<close>

definition ex_stat :: stat where
  "ex_stat = \<lparr>st_dev = 8, st_ino = 100, st_nlink = 1, st_mode = 0x81A4, st_rdev = 0\<rparr>"

definition ex_file :: open_file where
  "ex_file = \<lparr>of_stat = ex_stat, of_flags = 0x8002, of_setfl = True\<rparr>"

definition ex_os :: os_state where
  "ex_os = \<lparr>fd_table = (\<lambda>fd. if fd < 2 then Some 0 else None),
            open_files = (\<lambda>_. ex_file), fd_links = (\<lambda>_. Some ''/tmp/x''),
            open_max = 3, stray_arg = 0\<rparr>"


definition ex_heap :: "nat \<Rightarrow> fdinfo" where
  "ex_heap = (\<lambda>_. \<lparr>fi_stat = ex_stat, fi_state = 77, fi_mark = 5\<rparr>)"

definition ex_table :: "fdinfo list" where
  "ex_table = fst (projr (initialize ex_os ex_heap))"


subsection \<open>The decision rules and the states of the operation\<close>

text \<open>
  The rules of the resource policy in the words of the specification: the descriptor was
  open in the baseline table; it is the character device 1:8 or 1:9; it is marked as
  class path and not as impossible to restore; it is marked persistent; it is the socket
  of the attach operation. \<open>allowed\<close> is the disjunction of the rules,
  \<open>reason_line\<close> the line of the first rule that holds, \<open>failure_kind\<close> the kind
  of failure by file type, and \<open>blocking\<close> an open descriptor that no rule allows.
\<close>

definition baseline_open :: "crac_env \<Rightarrow> nat \<Rightarrow> bool" where
  "baseline_open env i \<longleftrightarrow>
     (\<exists>infos. vm_inited_fds env = Some infos \<and> i < length infos \<and> fi_state (infos ! i) \<noteq> CLOSED)"

definition is_random_device :: "stat \<Rightarrow> bool" where
  "is_random_device st \<longleftrightarrow>
     st_mode st AND S_IFMT = S_IFCHR \<and> major (st_rdev st) = 1 \<and>
     (minor (st_rdev st) = 8 \<or> minor (st_rdev st) = 9)"

definition is_jcmd_socket :: "VM_Crac \<Rightarrow> stat \<Rightarrow> nat \<Rightarrow> bool" where
  "is_jcmd_socket vm st i \<longleftrightarrow> st_mode st AND S_IFMT = S_IFSOCK \<and> vc_attach_op vm = Some i"

definition failure_kind :: "32 word \<Rightarrow> jvm_cr_fail" where
  "failure_kind mode =
     (if mode AND S_IFMT = S_IFSOCK then JVM_CR_FAIL_SOCK
      else if mode AND S_IFMT \<in> {S_IFLNK, S_IFREG, S_IFBLK, S_IFDIR, S_IFCHR} then JVM_CR_FAIL_FILE
      else if mode AND S_IFMT = S_IFIFO then JVM_CR_FAIL_PIPE
      else JVM_CR_FAIL)"

definition allowed :: "crac_env \<Rightarrow> VM_Crac \<Rightarrow> fdinfo list \<Rightarrow> nat \<Rightarrow> bool" where
  "allowed env vm fds i \<longleftrightarrow>
     baseline_open env i \<or> is_random_device (get_stat fds i) \<or>
     (check fds i M_CLASSPATH \<and> \<not> check fds i M_CANT_RESTORE) \<or>
     check fds i M_PERSISTENT \<or> is_jcmd_socket vm (get_stat fds i) i"

definition reason_line :: "crac_env \<Rightarrow> VM_Crac \<Rightarrow> fdinfo list \<Rightarrow> nat \<Rightarrow> resource_line" where
  "reason_line env vm fds i =
     (if baseline_open env i then Line_ok_inherited
      else if is_random_device (get_stat fds i) then Line_ok_random
      else if check fds i M_CLASSPATH \<and> \<not> check fds i M_CANT_RESTORE then Line_ok_classpath
      else if check fds i M_PERSISTENT then Line_ok_persistent
      else if is_jcmd_socket vm (get_stat fds i) i then Line_ok_jcmd
      else Line_bad)"

definition blocking :: "crac_env \<Rightarrow> VM_Crac \<Rightarrow> fdinfo list \<Rightarrow> nat \<Rightarrow> bool" where
  "blocking env vm fds i \<longleftrightarrow> get_state fds i \<noteq> CLOSED \<and> \<not> allowed env vm fds i"

text \<open>
  \<open>vm_operation\<close> is the state with the fresh object of the operation.
  \<open>reaches_engine\<close>: the operation goes on to call the engine after the evaluation
  of the resources. \<open>engine_succeeds\<close>: the engine is found, forked and exits with
  status 0. \<open>engine_fails\<close>: there is no engine, or the fork fails, or waiting fails,
  or the child does not exit, or exits with another status. \<open>before_engine\<close> is the
  state in which the engine is called, and \<open>orchestrator_events\<close> are the events the
  operation can add apart from the signal and the shared memory.
\<close>

definition vm_operation :: "bool \<Rightarrow> nat option \<Rightarrow> crac_state \<Rightarrow> crac_state" where
  "vm_operation dry_run jcmd_socket s = s\<lparr>cs_vm := new_VM_Crac dry_run jcmd_socket\<rparr>"






text \<open>
  An environment for the examples: descriptors 0 and 1 were open in the baseline table,
  the engine exits with status 0 after one interrupted wait, and the restore signal
  comes queued with payload 0.
\<close>

definition ex_baseline :: "fdinfo list" where
  "ex_baseline = [\<lparr>fi_stat = ex_stat, fi_state = ROOT, fi_mark = 0\<rparr>,
                  \<lparr>fi_stat = ex_stat, fi_state = ROOT, fi_mark = 0\<rparr>]"

definition ex_env :: crac_env where
  "ex_env =
     \<lparr>CRaCCheckpointTo = Some ''/cr'', CRPrintResourcesOnCheckpoint = True,
      CRHeapDumpOnCheckpointException = False, CRDoThrowCheckpointException = True,
      CRAllowToSkipCheckpoint = False, sysclasspath = ''/a.jar:/b.jar'', appclasspath = ''/app'',
      ext_dirs = [], path_stat = (\<lambda>_. None), dir_inodes = (\<lambda>_. None),
      proc_net_details = (\<lambda>d. d), vm_inited_fds = Some ex_baseline, heap_contents = ex_heap,
      perf_checkpoint_ok = True, crengine = Some ''/criu'', fork_ok = True,
      waitpid_results = [Wait_EINTR, Wait_exited 0],
      sigwaitinfo_results = [Sig_EINTR, Sig_returned \<lparr>si_code = SI_QUEUE, si_int = 0\<rparr>],
      javaTimeMillis = 1000, javaTimeNanos = 2000, shm_objects = (\<lambda>_. None),
      mkdir_ok = True\<rparr>"

definition ex_state :: crac_state where
  "ex_state =
     \<lparr>cs_vm = new_VM_Crac False None, cs_os = ex_os, cs_clock = initial_restore_clock,
      cs_registry = None, cs_environ = [], cs_events = []\<rparr>"

section \<open>Properties\<close>

subsection \<open>The search of deregister_persistent_fd\<close>

lemma deregister_search_Some:
  assumes "deregister_search prs fd dev ino i = Some r"
  shows "r = i \<and> (i < length prs \<longrightarrow> pr_matches (prs ! i) fd dev ino)"
proof (rule deregister_search.raw_induct
    [where P = "\<lambda>prs fd dev ino i r.
       r = i \<and> (i < length prs \<longrightarrow> pr_matches (prs ! i) fd dev ino)", OF _ assms])
  fix f prs fd dev ino i r
  assume IH: "\<And>prs fd dev ino i r. f prs fd dev ino i = Some r \<Longrightarrow>
      r = i \<and> (i < length prs \<longrightarrow> pr_matches (prs ! i) fd dev ino)"
    and step: "(if i < length prs then
        (if pr_matches (prs ! i) fd dev ino then Some i
         else f prs fd dev ino i)
      else Some i) = Some r"
  show "r = i \<and> (i < length prs \<longrightarrow> pr_matches (prs ! i) fd dev ino)"
    using step IH by (auto split: if_splits)
qed

lemma deregister_search_stuck:
  assumes "i < length prs" and "\<not> pr_matches (prs ! i) fd dev ino"
  shows "deregister_search prs fd dev ino i = None"
proof (cases "deregister_search prs fd dev ino i")
  case None
  then show ?thesis .
next
  case (Some r)
  from deregister_search_Some [OF Some] assms show ?thesis by simp
qed

text \<open>
  Claim C9: \<^verbatim>\<open>deregister_persistent_fd\<close> terminates for every registry and
  arguments, and removes the matching entry when there is one. The loop never advances
  its index: with the registry \<open>[(3, 8, 100), (4, 8, 100)]\<close> the call for descriptor 4,
  device 8, inode 100 (the second entry) looks at the first entry forever and does
  not return, so the matching entry is not removed.
\<close>

theorem deregister_persistent_fd_diverges:
  "deregister_persistent_fd True
     (Some [\<lparr>pr_fd = 3, pr_st_dev = 8, pr_st_ino = 100\<rparr>,
            \<lparr>pr_fd = 4, pr_st_dev = 8, pr_st_ino = 100\<rparr>]) 4 8 100 = None"
  by (simp add: deregister_persistent_fd_def deregister_search_stuck pr_matches_def)

subsection \<open>The restore parameter block\<close>




























subsection \<open>The descriptor table\<close>































lemmas initialize_eval_defs =
  initialize_def upt_rec fstat_def Let_def get_state_def ROOT_def CLOSED_def DUP_OF_0_def
  same_fd_def get_stat_def same_stat_def fcntl_def F_GETFL_def F_SETFL_def set_state_def
  O_NONBLOCK_def SETFL_MASK_def mark_cant_restore_def readfdlink_def PATH_MAX_def
  nfs_silly_rename_def base_name_def NFS_PREF_def ex_heap_def ex_file_def ex_stat_def


lemma ex_table_stat: "get_stat ex_table 0 = ex_stat \<and> get_stat ex_table (Suc 0) = ex_stat"
  by (simp add: ex_table_def ex_os_def initialize_eval_defs)




text \<open>
  Claim C5: the status flags of a descriptor after \<^verbatim>\<open>same_fd\<close> are those before
  it. The last call is \<^verbatim>\<open>fcntl(fd1, flags1)\<close>, with the old flags in the place of
  the command and no \<^verbatim>\<open>F_SETFL\<close>. In \<open>ex_os\<close> the probe of descriptors 1 and 0
  finds the duplicate and returns with \<^verbatim>\<open>O_NONBLOCK\<close> set: the flags were
  \<open>0x8002\<close> before and are \<open>0x8802\<close> after.
\<close>

theorem same_fd_leaves_nonblock_toggled:
  "fst (fcntl ex_os 1 F_GETFL None) = 0x8002 \<and>
   fst (same_fd ex_os ex_table 1 0) = True \<and>
   fst (fcntl (snd (same_fd ex_os ex_table 1 0)) 1 F_GETFL None) = 0x8802"
  by (simp add: same_fd_def ex_table_stat ex_os_def ex_file_def same_stat_def fcntl_def Let_def
      F_GETFL_def F_SETFL_def O_NONBLOCK_def SETFL_MASK_def)

subsection \<open>The resource policy\<close>

lemma get_state_or_baseline:
  "get_state_or (vm_inited_fds env) i CLOSED \<noteq> CLOSED \<longleftrightarrow> baseline_open env i"
  by (auto simp add: get_state_or_def baseline_open_def split: option.splits)

lemma stat2stfail_kind: "stat2stfail (m AND S_IFMT) = failure_kind m"
  by (simp add: stat2stfail_def failure_kind_def Let_def and.assoc)

lemma print_resources_keeps:
  "vc_failures (print_resources env vm l) = vc_failures vm \<and>
   vc_attach_op (print_resources env vm l) = vc_attach_op vm \<and>
   vc_dry_run (print_resources env vm l) = vc_dry_run vm \<and>
   vc_ok (print_resources env vm l) = vc_ok vm \<and>
   vc_restore_parameters (print_resources env vm l) = vc_restore_parameters vm"
  by (simp add: print_resources_def)

lemma print_resources_last:
  "CRPrintResourcesOnCheckpoint env \<Longrightarrow> last (vc_ostream (print_resources env vm l)) = l"
  by (simp add: print_resources_def)

lemma check_fd_result:
  assumes "get_state fds i \<noteq> CLOSED"
  shows "(allowed env vm fds i \<longrightarrow>
            fst (check_fd env os fds i (ok, vm)) = ok \<and>
            vc_failures (snd (check_fd env os fds i (ok, vm))) = vc_failures vm) \<and>
         (\<not> allowed env vm fds i \<longrightarrow>
            fst (check_fd env os fds i (ok, vm)) = False \<and>
            (\<exists>msg. vc_failures (snd (check_fd env os fds i (ok, vm))) =
               vc_failures vm @
               [\<lparr>fail_type = failure_kind (st_mode (get_stat fds i)), fail_msg = msg\<rparr>])) \<and>
         (CRPrintResourcesOnCheckpoint env \<longrightarrow>
            last (vc_ostream (snd (check_fd env os fds i (ok, vm)))) = reason_line env vm fds i)"
  using assms
  by (auto simp add: check_fd_def Let_def get_state_or_baseline allowed_def reason_line_def
      is_random_device_def is_jcmd_socket_def S_ISCHR_def S_ISSOCK_def is_socket_from_jcmd_def
      print_resources_keeps print_resources_last stat2stfail_kind split: option.splits)

lemma check_fd_closed:
  "get_state fds i = CLOSED \<Longrightarrow> check_fd env os fds i (ok, vm) = (ok, vm)"
  by (simp add: check_fd_def)

lemma check_fd_keeps:
  "vc_attach_op (snd (check_fd env os fds i (ok, vm))) = vc_attach_op vm \<and>
   vc_dry_run (snd (check_fd env os fds i (ok, vm))) = vc_dry_run vm \<and>
   vc_ok (snd (check_fd env os fds i (ok, vm))) = vc_ok vm \<and>
   vc_restore_parameters (snd (check_fd env os fds i (ok, vm))) = vc_restore_parameters vm"
  by (simp add: check_fd_def Let_def print_resources_keeps split: option.splits)

lemma allowed_attach_op:
  "vc_attach_op vm' = vc_attach_op vm \<Longrightarrow> allowed env vm' fds i = allowed env vm fds i"
  by (simp add: allowed_def is_jcmd_socket_def)

lemma check_fd_step:
  "fst (check_fd env os fds i (ok, vm)) = (ok \<and> \<not> blocking env vm fds i) \<and>
   map fail_type (vc_failures (snd (check_fd env os fds i (ok, vm)))) =
     map fail_type (vc_failures vm) @
     (if blocking env vm fds i then [failure_kind (st_mode (get_stat fds i))] else [])"
proof (cases "get_state fds i = CLOSED")
  case True
  then show ?thesis by (simp add: check_fd_closed blocking_def)
next
  case False
  note d = check_fd_result [OF False, of env vm os ok]
  show ?thesis
  proof (cases "allowed env vm fds i")
    case True
    with d False show ?thesis by (simp add: blocking_def)
  next
    case na: False
    with d obtain msg where
      "fst (check_fd env os fds i (ok, vm)) = False"
      "vc_failures (snd (check_fd env os fds i (ok, vm))) =
         vc_failures vm @ [\<lparr>fail_type = failure_kind (st_mode (get_stat fds i)), fail_msg = msg\<rparr>]"
      by blast
    with na False show ?thesis by (simp add: blocking_def)
  qed
qed

lemma check_fds_loop:
  "fst (fold (check_fd env os fds) is (ok, vm)) = (ok \<and> (\<forall>i\<in>set is. \<not> blocking env vm fds i)) \<and>
   map fail_type (vc_failures (snd (fold (check_fd env os fds) is (ok, vm)))) =
     map fail_type (vc_failures vm) @
     map (\<lambda>i. failure_kind (st_mode (get_stat fds i))) (filter (blocking env vm fds) is) \<and>
   vc_attach_op (snd (fold (check_fd env os fds) is (ok, vm))) = vc_attach_op vm \<and>
   vc_dry_run (snd (fold (check_fd env os fds) is (ok, vm))) = vc_dry_run vm \<and>
   vc_ok (snd (fold (check_fd env os fds) is (ok, vm))) = vc_ok vm \<and>
   vc_restore_parameters (snd (fold (check_fd env os fds) is (ok, vm))) = vc_restore_parameters vm"
proof (induction "is" arbitrary: ok vm)
  case Nil
  then show ?case by simp
next
  case (Cons i "is")
  define ok1 where "ok1 = fst (check_fd env os fds i (ok, vm))"
  define vm1 where "vm1 = snd (check_fd env os fds i (ok, vm))"
  have ok1: "ok1 = (ok \<and> \<not> blocking env vm fds i)"
    unfolding ok1_def using check_fd_step [of env os fds i ok vm] by (rule conjunct1)
  have f1: "map fail_type (vc_failures vm1) = map fail_type (vc_failures vm) @
       (if blocking env vm fds i then [failure_kind (st_mode (get_stat fds i))] else [])"
    unfolding vm1_def using check_fd_step [of env os fds i ok vm] by (rule conjunct2)
  have k1: "vc_attach_op vm1 = vc_attach_op vm" "vc_dry_run vm1 = vc_dry_run vm"
      "vc_ok vm1 = vc_ok vm" "vc_restore_parameters vm1 = vc_restore_parameters vm"
    unfolding vm1_def using check_fd_keeps [of env os fds i ok vm] by blast+
  have b: "blocking env vm1 fds = blocking env vm fds"
    using allowed_attach_op [OF k1(1)] by (simp add: blocking_def fun_eq_iff)
  have fo: "fold (check_fd env os fds) (i # is) (ok, vm) = fold (check_fd env os fds) is (ok1, vm1)"
    by (simp add: ok1_def vm1_def)
  note IH = Cons.IH [of ok1 vm1, unfolded b k1 f1]
  show ?case
    unfolding fo using IH ok1 by (cases "blocking env vm fds i") simp_all
qed

text \<open>
  Claim C1: the decision for a descriptor that is not \<open>CLOSED\<close> (a \<open>ROOT\<close>
  descriptor in particular). When one of the five rules holds, \<open>ok\<close> and the failures
  stay as they are; otherwise \<open>ok\<close> becomes false and one failure is appended, of the
  kind that the file type gives: socket to \<open>SOCK\<close>; symlink, regular, block,
  directory, character to \<open>FILE\<close>; FIFO to \<open>PIPE\<close>; anything else to the generic
  kind. The rules are tried in the order of the claim: the reason that is printed is
  that of the first rule that holds. Over the whole table the loop clears \<open>ok\<close>
  exactly when some descriptor is blocking, and appends the failures of the blocking
  descriptors in the order of their numbers.
\<close>

theorem check_fd_decision:
  assumes "get_state fds i \<noteq> CLOSED"
  shows "(allowed env vm fds i \<longrightarrow>
            fst (check_fd env os fds i (ok, vm)) = ok \<and>
            vc_failures (snd (check_fd env os fds i (ok, vm))) = vc_failures vm) \<and>
         (\<not> allowed env vm fds i \<longrightarrow>
            fst (check_fd env os fds i (ok, vm)) = False \<and>
            (\<exists>msg. vc_failures (snd (check_fd env os fds i (ok, vm))) =
               vc_failures vm @
               [\<lparr>fail_type = failure_kind (st_mode (get_stat fds i)), fail_msg = msg\<rparr>])) \<and>
         (CRPrintResourcesOnCheckpoint env \<longrightarrow>
            last (vc_ostream (snd (check_fd env os fds i (ok, vm)))) = reason_line env vm fds i) \<and>
         fst (fold (check_fd env os fds) [0..<length fds] (ok, vm)) =
           (ok \<and> (\<forall>j<length fds. \<not> blocking env vm fds j)) \<and>
         map fail_type (vc_failures (snd (fold (check_fd env os fds) [0..<length fds] (ok, vm)))) =
           map fail_type (vc_failures vm) @
           map (\<lambda>j. failure_kind (st_mode (get_stat fds j)))
             (filter (blocking env vm fds) [0..<length fds])"
  using check_fd_result [OF assms, of env vm os ok]
    check_fds_loop [of env os fds "[0..<length fds]" ok vm]
  by auto

lemma evaluate_resources_result:
  assumes "evaluate_resources env s = Inr (ok, s')"
  shows "\<exists>fds. ok = (\<not> vc_dry_run (cs_vm s) \<and> (\<forall>i<length fds. \<not> blocking env (cs_vm s) fds i)) \<and>
           map fail_type (vc_failures (cs_vm s')) =
             map fail_type (vc_failures (cs_vm s)) @
             map (\<lambda>i. failure_kind (st_mode (get_stat fds i)))
               (filter (blocking env (cs_vm s) fds) [0..<length fds])"
    and "vc_dry_run (cs_vm s') = vc_dry_run (cs_vm s)"
    and "vc_ok (cs_vm s') = vc_ok (cs_vm s)"
    and "vc_attach_op (cs_vm s') = vc_attach_op (cs_vm s)"
    and "vc_restore_parameters (cs_vm s') = vc_restore_parameters (cs_vm s)"
    and "cs_events s' = cs_events s" and "cs_clock s' = cs_clock s"
    and "cs_environ s' = cs_environ s"
proof -
  from assms obtain fds0 os1 where i: "initialize (cs_os s) (heap_contents env) = Inr (fds0, os1)"
    by (auto simp add: evaluate_resources_def split: sum.splits)
  define fds3 where "fds3 = do_classpaths env (mark_all_in env)
      (do_classpaths env (mark_classpath_entry env)
        (do_classpaths env (mark_classpath_entry env) fds0 (sysclasspath env))
        (appclasspath env)) (ext_dirs env)"
  define fds where "fds = fst (mark_persistent fds3 (cs_registry s))"
  define reg where "reg = snd (mark_persistent fds3 (cs_registry s))"
  define r where "r = fold (check_fd env os1 fds) [0..<length fds] (\<not> vc_dry_run (cs_vm s), cs_vm s)"
  have e: "evaluate_resources env s = Inr (fst r, s\<lparr>cs_vm := snd r, cs_os := os1, cs_registry := reg\<rparr>)"
    by (simp add: evaluate_resources_def i Let_def fds3_def fds_def reg_def r_def split: prod.splits)
  with assms have ok: "ok = fst r" and s': "s' = s\<lparr>cs_vm := snd r, cs_os := os1, cs_registry := reg\<rparr>"
    by simp_all
  note l = check_fds_loop [of env os1 fds "[0..<length fds]" "\<not> vc_dry_run (cs_vm s)" "cs_vm s",
      folded r_def]
  show "\<exists>fds. ok = (\<not> vc_dry_run (cs_vm s) \<and> (\<forall>i<length fds. \<not> blocking env (cs_vm s) fds i)) \<and>
           map fail_type (vc_failures (cs_vm s')) =
             map fail_type (vc_failures (cs_vm s)) @
             map (\<lambda>i. failure_kind (st_mode (get_stat fds i)))
               (filter (blocking env (cs_vm s) fds) [0..<length fds])"
    using l by (intro exI [of _ fds]) (auto simp add: ok s')
  show "vc_dry_run (cs_vm s') = vc_dry_run (cs_vm s)" using l by (simp add: s')
  show "vc_ok (cs_vm s') = vc_ok (cs_vm s)" using l by (simp add: s')
  show "vc_attach_op (cs_vm s') = vc_attach_op (cs_vm s)" using l by (simp add: s')
  show "vc_restore_parameters (cs_vm s') = vc_restore_parameters (cs_vm s)" using l by (simp add: s')
  show "cs_events s' = cs_events s" by (simp add: s')
  show "cs_clock s' = cs_clock s" by (simp add: s')
  show "cs_environ s' = cs_environ s" by (simp add: s')
qed

text \<open>
  Claim C3, as amended. After the evaluation of the resources, started with no failures,
  the local \<open>ok\<close> is true exactly when no failure was produced and the operation is
  not a dry run: the loop starts from \<^verbatim>\<open>ok = !_dry_run\<close>, so a dry run never
  ends with \<open>ok\<close> true.
\<close>

theorem evaluate_resources_ok:
  assumes "evaluate_resources env s = Inr (ok, s')" and "vc_failures (cs_vm s) = []"
  shows "(ok \<longleftrightarrow> vc_failures (cs_vm s') = [] \<and> \<not> vc_dry_run (cs_vm s)) \<and>
         (vc_dry_run (cs_vm s) \<longrightarrow> \<not> ok)"
proof -
  from evaluate_resources_result(1) [OF assms(1)] obtain fds where
    ok: "ok = (\<not> vc_dry_run (cs_vm s) \<and> (\<forall>i<length fds. \<not> blocking env (cs_vm s) fds i))"
    and f: "map fail_type (vc_failures (cs_vm s')) =
             map fail_type (vc_failures (cs_vm s)) @
             map (\<lambda>i. failure_kind (st_mode (get_stat fds i)))
               (filter (blocking env (cs_vm s) fds) [0..<length fds])"
    by blast
  have "vc_failures (cs_vm s') = [] \<longleftrightarrow> filter (blocking env (cs_vm s) fds) [0..<length fds] = []"
    using arg_cong [OF f, of length] assms(2) by (simp flip: length_0_conv)
  also have "\<dots> \<longleftrightarrow> (\<forall>i<length fds. \<not> blocking env (cs_vm s) fds i)"
    by (auto simp add: filter_empty_conv)
  finally show ?thesis
    using ok by blast
qed

subsection \<open>The engine, the restore signal and the dry run\<close>








lemma finish_restore_zero:
  "\<exists>s'. finish_restore env 0 s = Inr s' \<and> vc_ok (cs_vm s') \<and>
        vc_restore_parameters (cs_vm s') = vc_restore_parameters (cs_vm s) \<and>
        cs_environ s' = cs_environ s \<and>
        cs_clock s' = \<lparr>restore_start_time_var = javaTimeMillis env,
                        restore_start_counter_var = javaTimeNanos env\<rparr> \<and>
        cs_events s' = cs_events s @ [Ev_perf_restore]"
  by (simp add: finish_restore_def Let_def add_events_def PerfMemoryLinux_restore_def)



lemma vm_operation_fields:
  "vc_ok (cs_vm (vm_operation dry_run jcmd s)) = False \<and>
   vc_dry_run (cs_vm (vm_operation dry_run jcmd s)) = dry_run \<and>
   vc_failures (cs_vm (vm_operation dry_run jcmd s)) = [] \<and>
   vc_restore_parameters (cs_vm (vm_operation dry_run jcmd s)) = new_CracRestoreParameters \<and>
   cs_events (vm_operation dry_run jcmd s) = cs_events s \<and>
   cs_clock (vm_operation dry_run jcmd s) = cs_clock s \<and>
   cs_environ (vm_operation dry_run jcmd s) = cs_environ s"
  by (simp add: vm_operation_def new_VM_Crac_def)





text \<open>
  Claim C10. While restore time and counter are zero, as they are at the start of the
  process, \<^verbatim>\<open>restore_start_time\<close> and \<^verbatim>\<open>uptime_since_restore\<close> return \<open>-1\<close>.
  A restore is recorded as non-zero values: then \<^verbatim>\<open>restore_start_time\<close> returns
  the recorded time and \<^verbatim>\<open>uptime_since_restore\<close> the current
  \<^verbatim>\<open>javaTimeNanos()\<close> minus the recorded counter, in the arithmetic of
  \<^verbatim>\<open>jlong\<close>. The end of \<^verbatim>\<open>doit\<close> without a parameter block records the two
  clock readings, and the two functions then return them in this way.
\<close>

theorem restore_times:
  "restore_start_time initial_restore_clock = - 1 \<and>
   uptime_since_restore initial_restore_clock now = - 1 \<and>
   (restore_start_time_var g \<noteq> 0 \<longrightarrow> restore_start_time g = restore_start_time_var g) \<and>
   (restore_start_counter_var g \<noteq> 0 \<longrightarrow>
      uptime_since_restore g now = now - restore_start_counter_var g) \<and>
   (\<forall>s'. finish_restore env 0 s = Inr s' \<and> javaTimeMillis env \<noteq> 0 \<and> javaTimeNanos env \<noteq> 0 \<longrightarrow>
      restore_start_time (cs_clock s') = javaTimeMillis env \<and>
      uptime_since_restore (cs_clock s') now = now - javaTimeNanos env)"
  using finish_restore_zero [of env s]
  by (auto simp add: restore_start_time_def uptime_since_restore_def initial_restore_clock_def)

subsection \<open>Examples of the operation\<close>

lemmas policy_eval_defs =
  evaluate_resources_def initialize_def upt_rec fstat_def Let_def get_state_def ROOT_def
  CLOSED_def DUP_OF_0_def same_fd_def get_stat_def same_stat_def fcntl_def F_GETFL_def
  F_SETFL_def set_state_def O_NONBLOCK_def SETFL_MASK_def mark_cant_restore_def readfdlink_def
  PATH_MAX_def nfs_silly_rename_def base_name_def NFS_PREF_def ex_heap_def ex_file_def
  ex_stat_def ex_os_def ex_env_def ex_state_def vm_operation_def new_VM_Crac_def
  do_classpaths.simps mark_classpath_entry_def mark_persistent_def check_fd_def
  get_state_or_def print_resources_def stat2strtype_def stat2stfail_def S_IFMT_def
  S_IFSOCK_def S_IFLNK_def S_IFREG_def S_IFBLK_def S_IFDIR_def S_IFCHR_def S_IFIFO_def
  S_ISCHR_def S_ISSOCK_def check_def M_CLASSPATH_def M_CANT_RESTORE_def M_PERSISTENT_def
  is_socket_from_jcmd_def ex_baseline_def new_CracRestoreParameters_def mark_def

lemma Inr_projr: "\<not> isl x \<Longrightarrow> fst (projr x) = a \<Longrightarrow> x = Inr (a, snd (projr x))"
  by (cases x) auto

lemma ex_evaluate:
  "\<not> isl (evaluate_resources (ex_env\<lparr>CRDoThrowCheckpointException := t, waitpid_results := w\<rparr>)
           (vm_operation dry None ex_state)) \<and>
   fst (projr (evaluate_resources (ex_env\<lparr>CRDoThrowCheckpointException := t, waitpid_results := w\<rparr>)
           (vm_operation dry None ex_state))) = (\<not> dry) \<and>
   vc_failures (cs_vm (snd (projr (evaluate_resources
       (ex_env\<lparr>CRDoThrowCheckpointException := t, waitpid_results := w\<rparr>)
           (vm_operation dry None ex_state))))) = []"
  by (simp add: policy_eval_defs)

lemma ex_env_same: "ex_env\<lparr>CRDoThrowCheckpointException := True,
    waitpid_results := [Wait_EINTR, Wait_exited 0]\<rparr> = ex_env"
  by (simp add: ex_env_def)

theorem evaluate_resources_ok_witness:
  "evaluate_resources ex_env (vm_operation False None ex_state) =
     Inr (True, snd (projr (evaluate_resources ex_env (vm_operation False None ex_state)))) \<and>
   vc_failures (cs_vm (vm_operation False None ex_state)) = [] \<and>
   \<not> vc_dry_run (cs_vm (vm_operation False None ex_state)) \<and>
   vc_failures (cs_vm (snd (projr (evaluate_resources ex_env
      (vm_operation False None ex_state))))) = []"
proof -
  have e: "evaluate_resources ex_env (vm_operation False None ex_state) =
     Inr (True, snd (projr (evaluate_resources ex_env (vm_operation False None ex_state))))"
    using ex_evaluate [where t = True and w = "[Wait_EINTR, Wait_exited 0]" and dry = False]
    by (intro Inr_projr) (simp_all add: ex_env_same)
  have f: "vc_failures (cs_vm (vm_operation False None ex_state)) = []"
    by (simp add: vm_operation_fields)
  from evaluate_resources_ok [OF e f] show ?thesis
    using e f by (simp add: vm_operation_fields)
qed

text \<open>
  Claim C3 as stated fails: a dry run over \<open>ex_os\<close>, where both descriptors were open
  in the baseline table, produces no failure and ends with \<open>ok\<close> false.
\<close>

theorem dry_run_ok_counterexample:
  "\<not> isl (evaluate_resources ex_env (vm_operation True None ex_state)) \<and>
   vc_dry_run (cs_vm (vm_operation True None ex_state)) \<and>
   vc_failures (cs_vm (snd (projr (evaluate_resources ex_env
      (vm_operation True None ex_state))))) = [] \<and>
   fst (projr (evaluate_resources ex_env (vm_operation True None ex_state))) = False"
  using ex_evaluate [where t = True and w = "[Wait_EINTR, Wait_exited 0]" and dry = True]
  by (simp add: ex_env_same vm_operation_fields)

theorem check_fd_decision_witness:
  "get_state ex_baseline 0 \<noteq> CLOSED \<and>
   \<not> allowed (ex_env\<lparr>vm_inited_fds := None\<rparr>) (new_VM_Crac False None) ex_baseline 0 \<and>
   fst (check_fd (ex_env\<lparr>vm_inited_fds := None\<rparr>) ex_os ex_baseline 0
          (True, new_VM_Crac False None)) = False \<and>
   failure_kind (st_mode (get_stat ex_baseline 0)) = JVM_CR_FAIL_FILE \<and>
   last (vc_ostream (snd (check_fd (ex_env\<lparr>vm_inited_fds := None\<rparr>) ex_os ex_baseline 0
          (True, new_VM_Crac False None)))) = Line_bad"
proof -
  have h: "get_state ex_baseline 0 \<noteq> CLOSED"
    by (simp add: get_state_def ex_baseline_def ROOT_def CLOSED_def)
  have na: "\<not> allowed (ex_env\<lparr>vm_inited_fds := None\<rparr>) (new_VM_Crac False None) ex_baseline 0"
    by (simp add: allowed_def baseline_open_def is_random_device_def is_jcmd_socket_def
        ex_env_def ex_baseline_def get_stat_def ex_stat_def check_def new_VM_Crac_def
        S_IFMT_def S_IFCHR_def S_IFSOCK_def M_CLASSPATH_def M_PERSISTENT_def)
  have k: "failure_kind (st_mode (get_stat ex_baseline 0)) = JVM_CR_FAIL_FILE"
    by (simp add: failure_kind_def ex_baseline_def get_stat_def ex_stat_def
        S_IFMT_def S_IFSOCK_def S_IFLNK_def S_IFREG_def)
  have p: "CRPrintResourcesOnCheckpoint (ex_env\<lparr>vm_inited_fds := None\<rparr>)"
    by (simp add: ex_env_def)
  from check_fd_decision [OF h, of "ex_env\<lparr>vm_inited_fds := None\<rparr>" "new_VM_Crac False None"
      ex_os True]
  show ?thesis
    using h na k p by (simp add: reason_line_def allowed_def)
qed







theorem restore_times_witness:
  "restore_start_time_var \<lparr>restore_start_time_var = 1000, restore_start_counter_var = 2000\<rparr> \<noteq> 0 \<and>
   restore_start_counter_var \<lparr>restore_start_time_var = 1000, restore_start_counter_var = 2000\<rparr> \<noteq> 0 \<and>
   restore_start_time \<lparr>restore_start_time_var = 1000, restore_start_counter_var = 2000\<rparr> = 1000 \<and>
   uptime_since_restore \<lparr>restore_start_time_var = 1000, restore_start_counter_var = 2000\<rparr> 5000 =
     3000 \<and>
   finish_restore ex_env 0 ex_state = Inr (projr (finish_restore ex_env 0 ex_state)) \<and>
   javaTimeMillis ex_env \<noteq> 0 \<and> javaTimeNanos ex_env \<noteq> 0 \<and>
   restore_start_time (cs_clock (projr (finish_restore ex_env 0 ex_state))) = 1000 \<and>
   uptime_since_restore (cs_clock (projr (finish_restore ex_env 0 ex_state))) 5000 = 3000"
proof -
  have f: "finish_restore ex_env 0 ex_state = Inr (projr (finish_restore ex_env 0 ex_state))"
    by (simp add: finish_restore_def Let_def)
  have c: "javaTimeMillis ex_env = 1000" "javaTimeNanos ex_env = 2000"
    by (simp_all add: ex_env_def)
  from restore_times [of 5000 "\<lparr>restore_start_time_var = 1000, restore_start_counter_var = 2000\<rparr>"
      ex_env ex_state]
  show ?thesis
    using f c by simp
qed

end
